theory Spec2Isabelle
  imports Complex_Main
begin

section \<open>Calendar dates, instants and the local time zone\<close>

text \<open>
  A calendar date (the \<^verbatim>\<open>YYYY-MM-DD\<close> string of \<^verbatim>\<open>OHLCV.date\<close>, a \<^verbatim>\<open>DATE\<close> column
  in the store) is represented by its day number: the number of days since 1970-01-01.
  Comparing two such strings compares the day numbers.
\<close>

type_synonym cal_date = int

text \<open>
  Milliseconds since the epoch: the time value of a JavaScript \<^verbatim>\<open>Date\<close>
  (\<^verbatim>\<open>Date.getTime()\<close>). Comparing two \<^verbatim>\<open>Date\<close>s compares their time values.
\<close>

type_synonym timestamp = int

text \<open>The day number of the proleptic Gregorian date \<open>y-m-d\<close> (names a concrete date).\<close>

definition ymd :: "int \<Rightarrow> int \<Rightarrow> int \<Rightarrow> cal_date" where
  "ymd y m d =
     (let y' = (if m \<le> 2 then y - 1 else y);
          era = y' div 400;
          yoe = y' - era * 400;
          doy = (153 * (if m > 2 then m - 3 else m + 9) + 2) div 5 + d - 1;
          doe = yoe * 365 + yoe div 4 - yoe div 100 + doy
      in era * 146097 + doe - 719468)"

definition msPerDay :: int where
  "msPerDay = 86400000"

text \<open>
  The time zone of the process, as the language sees it: the offset of local time from
  UTC, in milliseconds, at a UTC instant (\<^verbatim>\<open>LocalTZA(t, true)\<close>), and the offset with which
  a local time value is turned back into UTC (\<^verbatim>\<open>LocalTZA(t, false)\<close>). A zone without
  daylight saving has one offset; any other zone has offsets that change.
\<close>

record zone =
  utcOffset :: "timestamp \<Rightarrow> int"
  localOffset :: "int \<Rightarrow> int"

definition fixedZone :: "int \<Rightarrow> zone" where
  "fixedZone off = \<lparr>utcOffset = (\<lambda>t. off), localOffset = (\<lambda>t. off)\<rparr>"

text \<open>\<^verbatim>\<open>new Date("YYYY-MM-DD")\<close>, and the \<^verbatim>\<open>Date\<close> of a \<^verbatim>\<open>DATE\<close> value: midnight UTC of the day.\<close>

definition newDate :: "cal_date \<Rightarrow> timestamp" where
  "newDate d = d * msPerDay"

text \<open>\<^verbatim>\<open>toISOString().split("T")[0]\<close>: the UTC calendar day of an instant.\<close>

definition toISODate :: "timestamp \<Rightarrow> cal_date" where
  "toISODate t = t div msPerDay"

definition LocalTime :: "zone \<Rightarrow> timestamp \<Rightarrow> int" where
  "LocalTime z t = t + utcOffset z t"

definition UTC :: "zone \<Rightarrow> int \<Rightarrow> timestamp" where
  "UTC z lt = lt - localOffset z lt"

text \<open>
  \<^verbatim>\<open>Date.getDay()\<close> is the weekday of the local day: 0 is Sunday, 6 is Saturday;
  1970-01-01 was a Thursday.
\<close>

definition getDay :: "zone \<Rightarrow> timestamp \<Rightarrow> int" where
  "getDay z t = (LocalTime z t div msPerDay + 4) mod 7"

text \<open>
  \<^verbatim>\<open>d.setDate(d.getDate() + k)\<close> moves \<open>k\<close> days in local time, keeping the local time of
  day, and converts the result back to UTC.
\<close>

definition addDays :: "zone \<Rightarrow> timestamp \<Rightarrow> int \<Rightarrow> timestamp" where
  "addDays z t k = UTC z (LocalTime z t + k * msPerDay)"

text \<open>An object with a \<^verbatim>\<open>date\<close> field, the argument type of \<^verbatim>\<open>findGaps\<close>.\<close>

record dated =
  date :: cal_date

section \<open>Bars and stored rows\<close>

text \<open>The interface \<^verbatim>\<open>OHLCV\<close>; an optional field is an \<open>option\<close>.\<close>

record ohlcv = dated +
  open' :: real
  high :: real
  low :: real
  close :: real
  volume :: real
  adjOpen :: real
  adjHigh :: real
  adjLow :: real
  adjClose :: real
  adjVolume :: real
  percentChange :: "real option"
  split :: "bool option"
  dividends :: "real option"
  dataSource :: "string option"
  fetchedAt :: "timestamp option"
  adjustedClose :: "real option"

text \<open>A row of \<^verbatim>\<open>daily.parquet\<close>, with the columns of the schema in \<^verbatim>\<open>writeDaily\<close>.\<close>

record row = dated +
  open' :: real
  high :: real
  low :: real
  close :: real
  volume :: real
  adj_open :: real
  adj_high :: real
  adj_low :: real
  adj_close :: real
  adj_volume :: real
  percent_change :: real
  split :: bool
  data_source :: string
  fetched_at :: timestamp

definition toStorage :: "timestamp \<Rightarrow> ohlcv \<Rightarrow> row" where
  "toStorage now d =
     \<lparr>date = date d,
      open' = ohlcv.open' d, high = ohlcv.high d, low = ohlcv.low d, close = ohlcv.close d,
      volume = ohlcv.volume d,
      adj_open = adjOpen d, adj_high = adjHigh d, adj_low = adjLow d, adj_close = adjClose d,
      adj_volume = adjVolume d,
      percent_change = (case percentChange d of None \<Rightarrow> 0 | Some p \<Rightarrow> p),
      split = (case ohlcv.split d of None \<Rightarrow> False | Some b \<Rightarrow> b),
      data_source = (case dataSource d of None \<Rightarrow> ''eod'' | Some s \<Rightarrow> if s = [] then ''eod'' else s),
      fetched_at = (case fetchedAt d of None \<Rightarrow> now | Some t \<Rightarrow> t)\<rparr>"

text \<open>
  \<^verbatim>\<open>String.prototype.toUpperCase\<close> on ASCII: a letter \<^verbatim>\<open>a\<close>..\<^verbatim>\<open>z\<close> (codes 97..122)
  loses bit 5.
\<close>

definition toUpperChar :: "char \<Rightarrow> char" where
  "toUpperChar c =
     (if 97 \<le> (of_char c :: nat) \<and> (of_char c :: nat) \<le> 122
      then (case c of Char b0 b1 b2 b3 b4 b5 b6 b7 \<Rightarrow> Char b0 b1 b2 b3 b4 False b6 b7)
      else c)"

definition toUpperCase :: "string \<Rightarrow> string" where
  "toUpperCase s = map toUpperChar s"

section \<open>Trading-calendar gap detector (\<^verbatim>\<open>Stocker.findGaps\<close>)\<close>

text \<open>
  The loops of \<^verbatim>\<open>findGaps\<close> step a \<^verbatim>\<open>Date\<close> by local days until a test on it holds. Whether
  they end depends on the time zone, so each loop returns \<open>None\<close> when it does not end.
\<close>

record gap =
  start :: cal_date
  end_date :: cal_date
  days :: nat

definition isTradingDay :: "zone \<Rightarrow> timestamp \<Rightarrow> bool" where
  "isTradingDay z d = (getDay z d \<noteq> 0 \<and> getDay z d \<noteq> 6)"

text \<open>The loop \<^verbatim>\<open>while (!isTradingDay(next)) next.setDate(next.getDate() + 1)\<close>.\<close>

partial_function (option) skipToTradingDay :: "zone \<Rightarrow> timestamp \<Rightarrow> timestamp option" where
  "skipToTradingDay z next =
     (if \<not> isTradingDay z next then skipToTradingDay z (addDays z next 1) else Some next)"

definition getNextTradingDay :: "zone \<Rightarrow> timestamp \<Rightarrow> timestamp option" where
  "getNextTradingDay z d = skipToTradingDay z (addDays z d 1)"

text \<open>The loop of \<^verbatim>\<open>countTradingDaysBetween\<close>: \<^verbatim>\<open>while (current < end)\<close>.\<close>

partial_function (option) countLoop ::
  "zone \<Rightarrow> timestamp \<Rightarrow> timestamp \<Rightarrow> nat \<Rightarrow> nat option" where
  "countLoop z current e count =
     (if current < e
      then countLoop z (addDays z current 1) e (if isTradingDay z current then count + 1 else count)
      else Some count)"

definition countTradingDaysBetween :: "zone \<Rightarrow> timestamp \<Rightarrow> timestamp \<Rightarrow> nat option" where
  "countTradingDaysBetween z s e = countLoop z (addDays z s 1) e 0"

text \<open>The loop \<^verbatim>\<open>while (!isTradingDay(gapEnd) && gapEnd > gapStart)\<close> stepping back a day.\<close>

partial_function (option) skipBackToTradingDay ::
  "zone \<Rightarrow> timestamp \<Rightarrow> timestamp \<Rightarrow> timestamp option" where
  "skipBackToTradingDay z gapEnd gapStart =
     (if \<not> isTradingDay z gapEnd \<and> gapEnd > gapStart
      then skipBackToTradingDay z (addDays z gapEnd (- 1)) gapStart
      else Some gapEnd)"

text \<open>
  The body of the \<^verbatim>\<open>for\<close> loop, for one pair of consecutive entries: both dates become
  \<^verbatim>\<open>Date\<close>s, and the start and end of a gap are rendered with \<^verbatim>\<open>toISOString\<close>.
\<close>

definition gapBetween :: "zone \<Rightarrow> cal_date \<Rightarrow> cal_date \<Rightarrow> gap list option" where
  "gapBetween z prevDay currDay =
     (let prevDate = newDate prevDay; currDate = newDate currDay
      in case countTradingDaysBetween z prevDate currDate of
           None \<Rightarrow> None
         | Some missingTradingDays \<Rightarrow>
             if missingTradingDays > 0
             then (case getNextTradingDay z prevDate of
                     None \<Rightarrow> None
                   | Some gapStart \<Rightarrow>
                       (case skipBackToTradingDay z (addDays z currDate (- 1)) gapStart of
                          None \<Rightarrow> None
                        | Some gapEnd \<Rightarrow>
                            Some [\<lparr>start = toISODate gapStart, end_date = toISODate gapEnd,
                                   days = missingTradingDays\<rparr>]))
             else Some [])"

text \<open>The \<^verbatim>\<open>for (let i = 1; i < data.length; i++)\<close> loop over consecutive pairs.\<close>

fun gapsFrom :: "zone \<Rightarrow> cal_date \<Rightarrow> cal_date list \<Rightarrow> gap list option" where
  "gapsFrom z prevDay [] = Some []"
| "gapsFrom z prevDay (currDay # rest) =
     (case gapBetween z prevDay currDay of
        None \<Rightarrow> None
      | Some g \<Rightarrow>
          (case gapsFrom z currDay rest of None \<Rightarrow> None | Some gs \<Rightarrow> Some (g @ gs)))"

definition findGaps :: "zone \<Rightarrow> ('a dated_scheme) list \<Rightarrow> gap list option" where
  "findGaps z data =
     (if length data < 2 then Some []
      else gapsFrom z (date (hd data)) (map date (tl data)))"

text \<open>
  The other text of \<^verbatim>\<open>findGaps\<close>, the one in \<^verbatim>\<open>src/index.ts\<close>: the expected next trading day
  after the previous entry (the same weekend-skipping loop, written with \<^verbatim>\<open>getDay() === 0 ||
  getDay() === 6\<close>), and \<^verbatim>\<open>Math.floor((currDate - expectedDate) / 86400000)\<close> days from it; the
  end is \<^verbatim>\<open>currDate\<close> less 24 hours.
\<close>

definition gapBetween_legacy :: "zone \<Rightarrow> cal_date \<Rightarrow> cal_date \<Rightarrow> gap list option" where
  "gapBetween_legacy z prevDay currDay =
     (let prevDate = newDate prevDay; currDate = newDate currDay
      in case skipToTradingDay z (addDays z prevDate 1) of
           None \<Rightarrow> None
         | Some expectedDate \<Rightarrow>
             let daysDiff = (currDate - expectedDate) div msPerDay
             in if daysDiff > 0
                then Some [\<lparr>start = toISODate expectedDate,
                            end_date = toISODate (currDate - 24 * 60 * 60 * 1000),
                            days = nat (daysDiff + 1)\<rparr>]
                else Some [])"

fun gapsFrom_legacy :: "zone \<Rightarrow> cal_date \<Rightarrow> cal_date list \<Rightarrow> gap list option" where
  "gapsFrom_legacy z prevDay [] = Some []"
| "gapsFrom_legacy z prevDay (currDay # rest) =
     (case gapBetween_legacy z prevDay currDay of
        None \<Rightarrow> None
      | Some g \<Rightarrow>
          (case gapsFrom_legacy z currDay rest of None \<Rightarrow> None | Some gs \<Rightarrow> Some (g @ gs)))"

definition findGaps_legacy :: "zone \<Rightarrow> ('a dated_scheme) list \<Rightarrow> gap list option" where
  "findGaps_legacy z data =
     (if length data < 2 then Some []
      else gapsFrom_legacy z (date (hd data)) (map date (tl data)))"

section \<open>Storage (\<^verbatim>\<open>DuckDBBase\<close>, \<^verbatim>\<open>StockDuckDBStorage\<close>)\<close>

datatype error =
  DatabaseNotInitialized
  | TableNotFound
  | FileNotFound
  | TickerNotFound
  | ApiError
  | InvalidResponse

text \<open>A row of the table \<^verbatim>\<open>stock_metadata\<close>.\<close>

record metadata_row =
  ticker :: string
  first_trade_date :: cal_date
  last_trade_date :: cal_date
  last_update :: timestamp
  data_source :: string
  record_count :: nat

text \<open>The interface \<^verbatim>\<open>StockMetadata\<close>, as \<^verbatim>\<open>getMetadata\<close> builds it.\<close>

record StockMetadata =
  ticker :: string
  firstTradeDate :: cal_date
  lastUpdate :: timestamp
  dataSource :: string
  recordCount :: nat

type_synonym files = "string \<rightharpoonup> row list"

text \<open>
  The storage object: \<open>db\<close> tells whether \<^verbatim>\<open>init\<close> has set \<^verbatim>\<open>this.db\<close>, \<open>files\<close> holds the
  Parquet files by path, \<open>stock_metadata\<close> is the metadata table keyed by its primary key.
\<close>

record storage =
  db :: bool
  stocksDir :: string
  files :: files
  stock_metadata :: "string \<rightharpoonup> metadata_row"

text \<open>
  The file-system effects that the storage code issues: \<^verbatim>\<open>COPY ... TO 'path'\<close> writes a
  whole file, \<^verbatim>\<open>fs.rename\<close> moves one.
\<close>

datatype fs_op =
  CopyTo string "row list"
  | Rename string string

fun exec :: "fs_op \<Rightarrow> files \<Rightarrow> error + files" where
  "exec (CopyTo p rows) f = Inr (f(p \<mapsto> rows))"
| "exec (Rename src dst) f =
     (case f src of
        None \<Rightarrow> Inl FileNotFound
      | Some rows \<Rightarrow> Inr ((f(dst \<mapsto> rows))(src := None)))"

fun execAll :: "fs_op list \<Rightarrow> files \<Rightarrow> error + files" where
  "execAll [] f = Inr f"
| "execAll (a # as) f = (case exec a f of Inl e \<Rightarrow> Inl e | Inr f' \<Rightarrow> execAll as f')"

definition getParquetPath :: "storage \<Rightarrow> string \<Rightarrow> string" where
  "getParquetPath st t = stocksDir st @ ''/'' @ t @ ''/daily.parquet''"

definition exists :: "storage \<Rightarrow> string \<Rightarrow> bool" where
  "exists st t = (files st (getParquetPath st t) \<noteq> None)"

text \<open>
  \<^verbatim>\<open>writeParquet\<close> with a schema: the rows go to a temporary table (in batches of 1000,
  which together are the rows given), then one \<^verbatim>\<open>COPY\<close> of the table to the output path.
  Rows are taken in the fixed schema of \<^verbatim>\<open>writeDaily\<close>; the inference of column types from
  a first row is not modelled.
\<close>

definition writeParquet_ops :: "row list \<Rightarrow> string \<Rightarrow> fs_op list" where
  "writeParquet_ops data outputPath = [CopyTo outputPath data]"

definition writeParquet :: "storage \<Rightarrow> row list \<Rightarrow> string \<Rightarrow> error + storage" where
  "writeParquet st data outputPath =
     (if \<not> db st then Inl DatabaseNotInitialized
      else case execAll (writeParquet_ops data outputPath) (files st) of
             Inl e \<Rightarrow> Inl e
           | Inr f \<Rightarrow> Inr (st\<lparr>files := f\<rparr>))"

text \<open>
  The query of \<^verbatim>\<open>mergeParquet\<close>: the existing rows whose key is not among the new keys,
  \<^verbatim>\<open>UNION ALL\<close> the new rows, \<^verbatim>\<open>ORDER BY\<close> the key (here the column \<^verbatim>\<open>date\<close>). SQL leaves
  the order of rows with equal keys open; \<open>sort_key\<close> keeps the order they come in.
\<close>

definition mergeRows :: "row list \<Rightarrow> row list \<Rightarrow> row list" where
  "mergeRows existing newData =
     sort_key date (filter (\<lambda>r. date r \<notin> set (map date newData)) existing @ newData)"

definition tempPath :: "string \<Rightarrow> string" where
  "tempPath targetPath = targetPath @ ''.tmp''"

definition mergeParquet_ops :: "files \<Rightarrow> string \<Rightarrow> row list \<Rightarrow> fs_op list" where
  "mergeParquet_ops f existingPath newData =
     (case f existingPath of
        Some existing \<Rightarrow>
          [CopyTo (tempPath existingPath) (mergeRows existing newData),
           Rename (tempPath existingPath) existingPath]
      | None \<Rightarrow> [CopyTo existingPath newData])"

text \<open>
  \<^verbatim>\<open>writeToTempTable\<close> returns before creating the table when the data is empty, so the
  \<^verbatim>\<open>COPY\<close> that reads the table fails.
\<close>

definition mergeParquet :: "storage \<Rightarrow> string \<Rightarrow> row list \<Rightarrow> error + storage" where
  "mergeParquet st existingPath newData =
     (if \<not> db st then Inl DatabaseNotInitialized
      else if newData = [] then Inl TableNotFound
      else case execAll (mergeParquet_ops (files st) existingPath newData) (files st) of
             Inl e \<Rightarrow> Inl e
           | Inr f \<Rightarrow> Inr (st\<lparr>files := f\<rparr>))"

definition updateMetadata :: "storage \<Rightarrow> timestamp \<Rightarrow> string \<Rightarrow> ohlcv list \<Rightarrow> error + storage" where
  "updateMetadata st now t data =
     (if data = [] then Inr st
      else
        let firstDate = fold (\<lambda>d m. if date d < m then date d else m) data (date (hd data));
            lastDate = fold (\<lambda>d m. if date d > m then date d else m) data (date (hd data))
        in if \<not> db st then Inl DatabaseNotInitialized
           else case files st (getParquetPath st t) of
                  None \<Rightarrow> Inl FileNotFound
                | Some rows \<Rightarrow>
                    Inr (st\<lparr>stock_metadata := (stock_metadata st)(t \<mapsto>
                      \<lparr>metadata_row.ticker = t, first_trade_date = firstDate,
                       last_trade_date = lastDate, last_update = now,
                       data_source = ''eod'', record_count = length rows\<rparr>)\<rparr>))"

definition writeDaily :: "storage \<Rightarrow> timestamp \<Rightarrow> string \<Rightarrow> ohlcv list \<Rightarrow> error + storage" where
  "writeDaily st now t data =
     (if data = [] then Inr st
      else case writeParquet st (map (toStorage now) data) (getParquetPath st t) of
             Inl e \<Rightarrow> Inl e
           | Inr st' \<Rightarrow> updateMetadata st' now t data)"

definition mergeDaily :: "storage \<Rightarrow> timestamp \<Rightarrow> string \<Rightarrow> ohlcv list \<Rightarrow> error + storage" where
  "mergeDaily st now t newData =
     (if newData = [] then Inr st
      else case mergeParquet st (getParquetPath st t) (map (toStorage now) newData) of
             Inl e \<Rightarrow> Inl e
           | Inr st' \<Rightarrow> updateMetadata st' now t newData)"

definition fromStorage :: "row \<Rightarrow> ohlcv" where
  "fromStorage r =
     \<lparr>date = date r,
      ohlcv.open' = open' r, ohlcv.high = high r, ohlcv.low = low r, ohlcv.close = close r,
      ohlcv.volume = volume r,
      adjOpen = adj_open r, adjHigh = adj_high r, adjLow = adj_low r, adjClose = adj_close r,
      adjVolume = adj_volume r,
      percentChange = Some (percent_change r),
      ohlcv.split = Some (split r),
      dividends = None,
      dataSource = Some (row.data_source r),
      fetchedAt = Some (fetched_at r),
      adjustedClose = Some (adj_close r)\<rparr>"

definition getDaily ::
  "storage \<Rightarrow> string \<Rightarrow> cal_date option \<Rightarrow> cal_date option \<Rightarrow> error + ohlcv list" where
  "getDaily st t startDate endDate =
     (case files st (getParquetPath st t) of
        None \<Rightarrow> Inr []
      | Some rows \<Rightarrow>
          if \<not> db st then Inl DatabaseNotInitialized
          else Inr (map fromStorage (sort_key date (filter
                 (\<lambda>r. (case startDate of None \<Rightarrow> True | Some s \<Rightarrow> s \<le> date r) \<and>
                      (case endDate of None \<Rightarrow> True | Some e \<Rightarrow> date r \<le> e)) rows))))"

definition getMetadata :: "storage \<Rightarrow> string \<Rightarrow> error + StockMetadata option" where
  "getMetadata st t =
     (if \<not> db st then Inl DatabaseNotInitialized
      else case stock_metadata st t of
             None \<Rightarrow> Inr None
           | Some m \<Rightarrow> Inr (Some
               \<lparr>StockMetadata.ticker = metadata_row.ticker m,
                firstTradeDate = first_trade_date m,
                lastUpdate = last_update m,
                dataSource = metadata_row.data_source m,
                recordCount = record_count m\<rparr>))"

definition getLastUpdate :: "storage \<Rightarrow> string \<Rightarrow> error + timestamp option" where
  "getLastUpdate st t =
     (case getMetadata st t of
        Inl e \<Rightarrow> Inl e
      | Inr m \<Rightarrow> Inr (map_option lastUpdate m))"

section \<open>The update planner (\<^verbatim>\<open>Stocker\<close>)\<close>

text \<open>
  The collaborators: the price data source (\<^verbatim>\<open>EODHistoricalService\<close>), which may throw,
  and its split events, of which only the dates are used.
\<close>

record env =
  fetchDaily :: "string \<Rightarrow> cal_date option \<Rightarrow> cal_date option \<Rightarrow> error + ohlcv list"
  fetchSplits :: "string \<Rightarrow> cal_date list"

text \<open>
  The \<^verbatim>\<open>Stocker\<close> object: its storage, the symbols of the ticker registry, and the calls
  made so far to \<^verbatim>\<open>dataService.fetchDaily\<close> (symbol, start, end), oldest first. The clock
  (\<^verbatim>\<open>new Date()\<close>) is the argument \<open>now\<close> of each operation. A function that can throw
  after the call to the data source returns the state it reached with the error.
\<close>

record stocker =
  storage :: storage
  registry :: "string set"
  requests :: "(string \<times> cal_date option \<times> cal_date option) list"

text \<open>The \<^verbatim>\<open>options\<close> argument of \<^verbatim>\<open>fetch\<close>; \<^verbatim>\<open>undefined\<close> is \<open>None\<close> or \<open>False\<close>.\<close>

record options =
  start :: "cal_date option"
  end_date :: "cal_date option"
  update :: bool
  fillGaps :: bool

definition no_options :: options where
  "no_options = \<lparr>start = None, end_date = None, update = False, fillGaps = False\<rparr>"

definition applySplits :: "cal_date list \<Rightarrow> ohlcv list \<Rightarrow> ohlcv list" where
  "applySplits splits data =
     (if length splits > 0
      then map (\<lambda>bar. if date bar \<in> set splits then bar\<lparr>ohlcv.split := Some True\<rparr> else bar) data
      else data)"

definition fetch ::
  "env \<Rightarrow> timestamp \<Rightarrow> stocker \<Rightarrow> string \<Rightarrow> options \<Rightarrow> stocker \<times> error option" where
  "fetch env now s t opts =
     (let symbol = toUpperCase t;
          s1 = s\<lparr>requests := requests s @ [(symbol, options.start opts, options.end_date opts)]\<rparr>
      in case fetchDaily env symbol (options.start opts) (options.end_date opts) of
           Inl e \<Rightarrow> (s1, Some e)
         | Inr fetched \<Rightarrow>
             if length fetched = 0 then (s1, None)
             else
               let data = applySplits (fetchSplits env symbol) fetched;
                   stored = (if update opts \<and> exists (storage s1) symbol
                             then mergeDaily (storage s1) now symbol data
                             else writeDaily (storage s1) now symbol data)
               in case stored of
                    Inl e \<Rightarrow> (s1, Some e)
                  | Inr st \<Rightarrow>
                      (s1\<lparr>storage := st,
                          registry := (if symbol \<in> registry s1 then registry s1
                                       else insert symbol (registry s1))\<rparr>, None))"

text \<open>\<open>None\<close> when \<^verbatim>\<open>findGaps\<close> does not return.\<close>

definition updateSmart ::
  "env \<Rightarrow> timestamp \<Rightarrow> zone \<Rightarrow> stocker \<Rightarrow> string \<Rightarrow> (stocker \<times> error option) option" where
  "updateSmart env now z s t =
     (let symbol = toUpperCase t
      in if \<not> exists (storage s) symbol then Some (fetch env now s t no_options)
         else case getDaily (storage s) symbol None None of
                Inl e \<Rightarrow> Some (s, Some e)
              | Inr data \<Rightarrow>
                  (case findGaps z data of
                     None \<Rightarrow> None
                   | Some gaps \<Rightarrow>
                       if length gaps > 0
                       then Some (fetch env now s t (no_options\<lparr>options.update := True\<rparr>))
                       else if length data > 0
                       then let lastDate = date (last data);
                                nextDate = addDays z (newDate lastDate) 1
                            in Some (fetch env now s t
                                 (no_options\<lparr>options.start := Some (toISODate nextDate),
                                             options.update := True\<rparr>))
                       else Some (s, None)))"

section \<open>The command \<^verbatim>\<open>stocker fetch\<close> (\<^verbatim>\<open>FetchCommand.execute\<close>)\<close>

record FetchCommand =
  ticker :: "string list"
  start :: "cal_date option"
  end_date :: "cal_date option"
  update :: bool
  force :: bool

text \<open>The lines that \<^verbatim>\<open>execute\<close> itself prints for a ticker.\<close>

datatype message =
  AlreadyExists string timestamp
  | SuccessfullyFetched string nat cal_date timestamp
  | Failed string error

text \<open>\<^verbatim>\<open>format(d, 'yyyy-MM-dd')\<close> of date-fns: the local calendar day of an instant.\<close>

definition formatDate :: "zone \<Rightarrow> timestamp \<Rightarrow> cal_date" where
  "formatDate z ms = LocalTime z ms div msPerDay"

text \<open>
  One iteration of the loop over the tickers, from the state and the lines printed so far.
  An exception leaves the \<^verbatim>\<open>try\<close> block for the \<^verbatim>\<open>catch\<close>, which prints \<open>Failed\<close>.
\<close>

definition fetchOne ::
  "env \<Rightarrow> timestamp \<Rightarrow> zone \<Rightarrow> FetchCommand \<Rightarrow> stocker \<times> message list \<Rightarrow> string
     \<Rightarrow> stocker \<times> message list" where
  "fetchOne env now z cmd sc t =
     (let s = fst sc; out = snd sc;
          normalizedTicker = toUpperCase t;
          ex = exists (storage s) normalizedTicker;
          skipCheck = (if ex \<and> \<not> FetchCommand.update cmd \<and> \<not> force cmd
                       then getMetadata (storage s) normalizedTicker
                       else Inr None)
      in case skipCheck of
           Inl e \<Rightarrow> (s, out @ [Failed t e])
         | Inr (Some metadata) \<Rightarrow> (s, out @ [AlreadyExists normalizedTicker (lastUpdate metadata)])
         | Inr None \<Rightarrow>
             let derived = (if FetchCommand.update cmd \<and> ex
                            then getLastUpdate (storage s) normalizedTicker
                            else Inr None)
             in case derived of
                  Inl e \<Rightarrow> (s, out @ [Failed t e])
                | Inr lu \<Rightarrow>
                    let startDate = (case lu of
                                       Some lastUpd \<Rightarrow>
                                         Some (formatDate z (lastUpd + 24 * 60 * 60 * 1000))
                                     | None \<Rightarrow> FetchCommand.start cmd);
                        opts = \<lparr>options.start = startDate,
                                options.end_date = FetchCommand.end_date cmd,
                                options.update = FetchCommand.update cmd,
                                fillGaps = False\<rparr>
                    in case fetch env now s normalizedTicker opts of
                         (s', Some e) \<Rightarrow> (s', out @ [Failed t e])
                       | (s', None) \<Rightarrow>
                           (case getMetadata (storage s') normalizedTicker of
                              Inl e \<Rightarrow> (s', out @ [Failed t e])
                            | Inr None \<Rightarrow> (s', out)
                            | Inr (Some metadata) \<Rightarrow>
                                (s', out @ [SuccessfullyFetched normalizedTicker
                                     (recordCount metadata) (firstTradeDate metadata)
                                     (lastUpdate metadata)])))"

text \<open>\<^verbatim>\<open>init\<close> opens the catalog; \<^verbatim>\<open>CREATE TABLE IF NOT EXISTS\<close> keeps the rows there are.\<close>

definition init :: "storage \<Rightarrow> storage" where
  "init st = st\<lparr>db := True\<rparr>"

definition execute ::
  "env \<Rightarrow> timestamp \<Rightarrow> zone \<Rightarrow> FetchCommand \<Rightarrow> stocker \<Rightarrow> stocker \<times> message list" where
  "execute env now z cmd s =
     foldl (fetchOne env now z cmd) (s\<lparr>storage := init (storage s)\<rparr>, []) (FetchCommand.ticker cmd)"

section \<open>What a reader can see while a write is under way\<close>

text \<open>
  A reader of a path sees the file that is there, or nothing, or, while a \<^verbatim>\<open>COPY\<close> to that
  very path is running (or was cut short by a crash), a partially written file. A rename
  is atomic. \<open>views ops f p\<close> lists what a reader of \<open>p\<close> can see before, during and after
  each of the effects \<open>ops\<close>, started on the files \<open>f\<close>.
\<close>

datatype view =
  Intact "row list option"
  | PartiallyWritten

fun during :: "fs_op \<Rightarrow> string \<Rightarrow> view list" where
  "during (CopyTo q rows) p = (if p = q then [PartiallyWritten] else [])"
| "during (Rename src dst) p = []"

fun views :: "fs_op list \<Rightarrow> files \<Rightarrow> string \<Rightarrow> view list" where
  "views [] f p = [Intact (f p)]"
| "views (a # as) f p =
     Intact (f p) # during a p @ (case exec a f of Inl e \<Rightarrow> [] | Inr f' \<Rightarrow> views as f' p)"

section \<open>Notions used in the properties\<close>

text \<open>
  The weekday of a calendar date (0 is Sunday), whatever the time zone of the process;
  the number of weekdays in a list of dates, and in the span from \<open>a\<close> to \<open>b\<close> inclusive.
\<close>

definition weekday :: "cal_date \<Rightarrow> int" where
  "weekday d = (d + 4) mod 7"

definition isWeekday :: "cal_date \<Rightarrow> bool" where
  "isWeekday d = (weekday d \<noteq> 0 \<and> weekday d \<noteq> 6)"

definition weekdaysIn :: "cal_date list \<Rightarrow> nat" where
  "weekdaysIn ds = length (filter isWeekday ds)"

definition weekdaySpan :: "cal_date \<Rightarrow> cal_date \<Rightarrow> nat" where
  "weekdaySpan a b = weekdaysIn [a..b]"

section \<open>Example values\<close>

text \<open>A bar, a store holding two consecutive trading days of AAPL, and a data source with no data.\<close>

definition example_bar :: "cal_date \<Rightarrow> ohlcv" where
  "example_bar d =
     \<lparr>date = d, ohlcv.open' = 185, ohlcv.high = 186, ohlcv.low = 184, ohlcv.close = 185,
      ohlcv.volume = 1000, adjOpen = 185, adjHigh = 186, adjLow = 184, adjClose = 185,
      adjVolume = 1000, percentChange = None, ohlcv.split = None, dividends = None,
      dataSource = Some ''eod'', fetchedAt = Some 0, adjustedClose = Some 185\<rparr>"

definition example_storage :: storage where
  "example_storage =
     \<lparr>db = True, stocksDir = ''data/stocks'',
      files = [''data/stocks/AAPL/daily.parquet'' \<mapsto>
                 map (toStorage 0 \<circ> example_bar) [ymd 2024 1 9, ymd 2024 1 10]],
      stock_metadata = [''AAPL'' \<mapsto>
         \<lparr>metadata_row.ticker = ''AAPL'', first_trade_date = ymd 2024 1 9,
          last_trade_date = ymd 2024 1 10, last_update = 1705147200000,
          data_source = ''eod'', record_count = 2\<rparr>]\<rparr>"

definition example_stocker :: stocker where
  "example_stocker = \<lparr>storage = example_storage, registry = {''AAPL''}, requests = []\<rparr>"

definition example_env :: env where
  "example_env = \<lparr>fetchDaily = (\<lambda>symbol startDate endDate. Inr []), fetchSplits = (\<lambda>symbol. [])\<rparr>"

definition example_series :: "ohlcv list" where
  "example_series = map (fromStorage \<circ> toStorage 0 \<circ> example_bar) [ymd 2024 1 9, ymd 2024 1 10]"

definition example_gappy_storage :: storage where
  "example_gappy_storage =
     example_storage\<lparr>files := [''data/stocks/AAPL/daily.parquet'' \<mapsto>
        map (toStorage 0 \<circ> example_bar) [ymd 2024 1 5, ymd 2024 1 10]]\<rparr>"

definition example_gappy_series :: "ohlcv list" where
  "example_gappy_series = map (fromStorage \<circ> toStorage 0 \<circ> example_bar) [ymd 2024 1 5, ymd 2024 1 10]"

definition example_command :: FetchCommand where
  "example_command =
     \<lparr>ticker = [''aapl''], start = None, end_date = None, update = False, force = False\<rparr>"

definition example_rows :: "row list" where
  "example_rows = map (toStorage 0 \<circ> example_bar) [ymd 2024 1 9, ymd 2024 1 10]"

definition example_incoming :: "ohlcv list" where
  "example_incoming = [(example_bar (ymd 2024 1 10))\<lparr>ohlcv.close := 190\<rparr>, example_bar (ymd 2024 1 11)]"

text \<open>
  Time zones: UTC, a zone five hours west of it (New York in winter), and a zone two
  hours east of UTC whose clocks go forward an hour at local midnight of 2024-04-26
  (as in Cairo).
\<close>

definition zone_utc :: zone where
  "zone_utc = fixedZone 0"

definition zone_west :: zone where
  "zone_west = fixedZone (- 5 * 60 * 60 * 1000)"

definition zone_dst :: zone where
  "zone_dst =
     \<lparr>utcOffset = (\<lambda>t. if t < newDate (ymd 2024 4 26) - 2 * 60 * 60 * 1000
                        then 2 * 60 * 60 * 1000 else 3 * 60 * 60 * 1000),
      localOffset = (\<lambda>lt. if lt < newDate (ymd 2024 4 26) + 60 * 60 * 1000
                           then 2 * 60 * 60 * 1000 else 3 * 60 * 60 * 1000)\<rparr>"

text \<open>A store whose AAPL series ends on Thursday 2024-04-25, and a data source that answers.\<close>

definition example_april_storage :: storage where
  "example_april_storage =
     example_storage\<lparr>files := [''data/stocks/AAPL/daily.parquet'' \<mapsto>
        map (toStorage 0 \<circ> example_bar) [ymd 2024 4 24, ymd 2024 4 25]]\<rparr>"

definition example_answering_env :: env where
  "example_answering_env =
     \<lparr>fetchDaily = (\<lambda>symbol startDate endDate. Inr [example_bar (ymd 2024 1 8)]),
      fetchSplits = (\<lambda>symbol. [])\<rparr>"

section \<open>Properties of the gap detector\<close>

lemmas zone_defs = zone_utc_def zone_west_def zone_dst_def fixedZone_def newDate_def toISODate_def
  LocalTime_def UTC_def getDay_def addDays_def isTradingDay_def msPerDay_def

lemmas gap_defs = findGaps_def gapBetween_def countTradingDaysBetween_def getNextTradingDay_def
  skipToTradingDay.simps countLoop.simps skipBackToTradingDay.simps

lemmas legacy_defs = findGaps_legacy_def gapBetween_legacy_def skipToTradingDay.simps

lemma ymd_epoch: "ymd 1970 1 1 = 0" and ymd_2024_01_05: "ymd 2024 1 5 = 19727"
  by (simp_all add: ymd_def)

lemma weekday_2024_01_05: "weekday (ymd 2024 1 5) = 5" and weekday_2024_01_06: "weekday (ymd 2024 1 6) = 6"
  by (simp_all add: weekday_def ymd_def)

text \<open>
  In a process whose time zone is UTC, the text of \<^verbatim>\<open>findGaps\<close> that counts weekdays gives
  what C2 says for the dates 2024-01-05 and 2024-01-10.
\<close>

lemma findGaps_fri_wed_utc:
  "findGaps zone_utc [\<lparr>date = ymd 2024 1 5\<rparr>, \<lparr>date = ymd 2024 1 10\<rparr>]
     = Some [\<lparr>gap.start = ymd 2024 1 8, gap.end_date = ymd 2024 1 9, days = 2\<rparr>]"
  by (simp add: gap_defs zone_defs ymd_def)

text \<open>
  C2 fails on the code. Five hours west of UTC the dates 2024-01-05 and 2024-01-10, which
  are midnights UTC, are Thursday and Tuesday evening in local time, where \<^verbatim>\<open>getDay\<close> and
  \<^verbatim>\<open>setDate\<close> work: the gap reported starts on 2024-01-06, a Saturday. The other text of
  \<^verbatim>\<open>findGaps\<close> reports \<open>days = 3\<close>, in UTC too.
\<close>

theorem findGaps_fri_wed_diverges:
  "findGaps zone_west [\<lparr>date = ymd 2024 1 5\<rparr>, \<lparr>date = ymd 2024 1 10\<rparr>]
     = Some [\<lparr>gap.start = ymd 2024 1 6, gap.end_date = ymd 2024 1 9, days = 2\<rparr>] \<and>
   findGaps_legacy zone_utc [\<lparr>date = ymd 2024 1 5\<rparr>, \<lparr>date = ymd 2024 1 10\<rparr>]
     = Some [\<lparr>gap.start = ymd 2024 1 8, gap.end_date = ymd 2024 1 9, days = 3\<rparr>]"
  by (simp add: gap_defs legacy_defs zone_defs ymd_def)

text \<open>
  C3 fails on the code. Five hours west of UTC, between Friday 2024-01-05 and Monday
  2024-01-08 a gap of one day is reported, so that gap days and weekdays present are 3
  where the span has 2 weekdays. The other text of \<^verbatim>\<open>findGaps\<close> reports 3 days between
  2024-01-05 and 2024-01-10, in UTC too, where 2 weekdays are missing: 3 and the 2 present
  are 5, and the span has 4.
\<close>

theorem findGaps_accounting_diverges:
  "findGaps zone_west [\<lparr>date = ymd 2024 1 5\<rparr>, \<lparr>date = ymd 2024 1 8\<rparr>]
     = Some [\<lparr>gap.start = ymd 2024 1 6, gap.end_date = ymd 2024 1 6, days = 1\<rparr>] \<and>
   weekdaysIn [ymd 2024 1 5, ymd 2024 1 8] = 2 \<and>
   weekdaySpan (ymd 2024 1 5) (ymd 2024 1 8) = 2 \<and>
   findGaps_legacy zone_utc [\<lparr>date = ymd 2024 1 5\<rparr>, \<lparr>date = ymd 2024 1 10\<rparr>]
     = Some [\<lparr>gap.start = ymd 2024 1 8, gap.end_date = ymd 2024 1 9, days = 3\<rparr>] \<and>
   weekdaysIn [ymd 2024 1 5, ymd 2024 1 10] = 2 \<and>
   weekdaySpan (ymd 2024 1 5) (ymd 2024 1 10) = 4"
  by (simp add: gap_defs legacy_defs zone_defs ymd_def weekdaysIn_def weekdaySpan_def
      isWeekday_def weekday_def upto.simps)


text \<open>
  In a zone with one offset every loop of \<^verbatim>\<open>findGaps\<close> ends, so \<^verbatim>\<open>findGaps\<close> returns.
\<close>

lemma addDays_fixed: "addDays (fixedZone off) t k = t + k * msPerDay"
  by (simp add: addDays_def UTC_def LocalTime_def fixedZone_def)

lemma getDay_fixed_step: "getDay (fixedZone off) (t + msPerDay) = (getDay (fixedZone off) t + 1) mod 7"
proof -
  have "(t + msPerDay + off) div msPerDay = (t + off) div msPerDay + 1"
    by (simp add: msPerDay_def)
  then show ?thesis
    by (simp add: getDay_def LocalTime_def fixedZone_def add.commute add.left_commute mod_simps)
qed

lemma skipToTradingDay_total: "\<exists>r. skipToTradingDay (fixedZone off) t = Some r"
proof (induction "nat ((8 - getDay (fixedZone off) t) mod 7)" arbitrary: t rule: less_induct)
  case less
  show ?case
  proof (cases "isTradingDay (fixedZone off) t")
    case True
    then show ?thesis by (subst skipToTradingDay.simps) simp
  next
    case False
    then have w: "getDay (fixedZone off) t = 0 \<or> getDay (fixedZone off) t = 6"
      by (simp add: isTradingDay_def)
    have "(8 - (getDay (fixedZone off) t + 1) mod 7) mod 7 < (8 - getDay (fixedZone off) t) mod 7"
      using w by auto
    then have "nat ((8 - getDay (fixedZone off) (t + msPerDay)) mod 7)
                 < nat ((8 - getDay (fixedZone off) t) mod 7)"
      by (simp add: getDay_fixed_step)
    from less [OF this] obtain r where "skipToTradingDay (fixedZone off) (t + msPerDay) = Some r"
      by blast
    with False show ?thesis
      by (subst skipToTradingDay.simps) (simp add: addDays_fixed)
  qed
qed

lemma countLoop_total: "\<exists>r. countLoop (fixedZone off) c e n = Some r"
proof (induction "nat (e - c)" arbitrary: c n rule: less_induct)
  case less
  show ?case
  proof (cases "c < e")
    case True
    then have "nat (e - (c + msPerDay)) < nat (e - c)" by (simp add: msPerDay_def)
    from less [OF this] obtain r where
      "countLoop (fixedZone off) (c + msPerDay) e
         (if isTradingDay (fixedZone off) c then n + 1 else n) = Some r"
      by blast
    with True show ?thesis
      by (subst countLoop.simps) (simp add: addDays_fixed)
  next
    case False
    then show ?thesis by (subst countLoop.simps) simp
  qed
qed

lemma skipBackToTradingDay_total: "\<exists>r. skipBackToTradingDay (fixedZone off) g s = Some r"
proof (induction "nat (g - s)" arbitrary: g rule: less_induct)
  case less
  show ?case
  proof (cases "\<not> isTradingDay (fixedZone off) g \<and> g > s")
    case True
    then have "nat (g - msPerDay - s) < nat (g - s)" by (simp add: msPerDay_def)
    from less [OF this] obtain r where
      "skipBackToTradingDay (fixedZone off) (g - msPerDay) s = Some r"
      by blast
    with True show ?thesis
      by (subst skipBackToTradingDay.simps) (simp add: addDays_fixed)
  next
    case False
    then show ?thesis by (subst skipBackToTradingDay.simps) auto
  qed
qed

lemma gapBetween_total: "\<exists>g. gapBetween (fixedZone off) p c = Some g"
proof -
  obtain n where n: "countTradingDaysBetween (fixedZone off) (newDate p) (newDate c) = Some n"
    unfolding countTradingDaysBetween_def using countLoop_total by blast
  obtain a where a: "getNextTradingDay (fixedZone off) (newDate p) = Some a"
    unfolding getNextTradingDay_def using skipToTradingDay_total by blast
  obtain b where b: "skipBackToTradingDay (fixedZone off) (addDays (fixedZone off) (newDate c) (- 1)) a = Some b"
    using skipBackToTradingDay_total by blast
  show ?thesis
    by (simp add: gapBetween_def Let_def n a b)
qed

lemma gapsFrom_total: "\<exists>g. gapsFrom (fixedZone off) p ds = Some g"
proof (induction ds arbitrary: p)
  case Nil
  show ?case by simp
next
  case (Cons c rest)
  obtain g where g: "gapBetween (fixedZone off) p c = Some g" using gapBetween_total by blast
  obtain gs where gs: "gapsFrom (fixedZone off) c rest = Some gs" using Cons.IH by blast
  show ?case by (simp add: g gs)
qed

lemma findGaps_total: "\<exists>gaps. findGaps (fixedZone off) data = Some gaps"
  by (simp add: findGaps_def gapsFrom_total)

text \<open>
  In a zone with one offset, from UTC up to less than a day east of it, the local day
  of a midnight UTC is the UTC day, and the text of \<^verbatim>\<open>findGaps\<close> that counts weekdays
  does what C3 says.
\<close>

lemma newDate_less: "newDate a < newDate b \<longleftrightarrow> a < b"
  by (simp add: newDate_def msPerDay_def)

lemma newDate_Suc: "newDate c + msPerDay = newDate (c + 1)"
  by (simp add: newDate_def algebra_simps)

lemma isTradingDay_fixed:
  assumes "0 \<le> off" "off < msPerDay"
  shows "isTradingDay (fixedZone off) (newDate d) = isWeekday d"
proof -
  have "(d * msPerDay + off) div msPerDay = d + off div msPerDay"
    by (simp add: msPerDay_def)
  moreover have "off div msPerDay = 0"
    using assms by simp
  ultimately show ?thesis
    by (simp add: isTradingDay_def getDay_def LocalTime_def fixedZone_def newDate_def
        isWeekday_def weekday_def)
qed

lemma countLoop_days:
  assumes "0 \<le> off" "off < msPerDay"
  shows "countLoop (fixedZone off) (newDate c) (newDate e) n = Some (n + weekdaysIn [c..e - 1])"
proof (induction "nat (e - c)" arbitrary: c n rule: less_induct)
  case less
  show ?case
  proof (cases "c < e")
    case True
    then have "nat (e - (c + 1)) < nat (e - c)" by simp
    from less [OF this]
    have ih: "\<And>m. countLoop (fixedZone off) (newDate (c + 1)) (newDate e) m
                = Some (m + weekdaysIn [c + 1..e - 1])" .
    have u: "[c..e - 1] = c # [c + 1..e - 1]"
      using True upto_rec1 [of c "e - 1"] by linarith
    show ?thesis
      using True
      by (subst countLoop.simps)
        (simp add: newDate_less addDays_fixed newDate_Suc ih u weekdaysIn_def
          isTradingDay_fixed [OF assms])
  next
    case False
    then show ?thesis
      by (subst countLoop.simps) (simp add: newDate_less weekdaysIn_def)
  qed
qed

lemma gapBetween_days:
  assumes "0 \<le> off" "off < msPerDay"
  shows "\<exists>g. gapBetween (fixedZone off) p c = Some g \<and>
           sum_list (map days g) = weekdaysIn [p + 1..c - 1] \<and> (\<forall>x \<in> set g. 0 < days x)"
proof -
  have n: "countTradingDaysBetween (fixedZone off) (newDate p) (newDate c)
             = Some (weekdaysIn [p + 1..c - 1])"
    by (simp add: countTradingDaysBetween_def addDays_fixed newDate_Suc countLoop_days [OF assms])
  obtain a where a: "getNextTradingDay (fixedZone off) (newDate p) = Some a"
    unfolding getNextTradingDay_def using skipToTradingDay_total by blast
  obtain b where b: "skipBackToTradingDay (fixedZone off) (addDays (fixedZone off) (newDate c) (- 1)) a = Some b"
    using skipBackToTradingDay_total by blast
  show ?thesis
    by (simp add: gapBetween_def Let_def n a b)
qed

lemma span_split:
  assumes "p < c" "c \<le> l"
  shows "weekdaySpan p l = weekdaysIn [p] + weekdaysIn [p + 1..c - 1] + weekdaySpan c l"
proof -
  have "[p..l] = [p..c - 1] @ [c..l]"
    using assms upto_split1 [of p c l] by linarith
  moreover have "[p..c - 1] = p # [p + 1..c - 1]"
    using assms upto_rec1 [of p "c - 1"] by linarith
  ultimately have "[p..l] = (p # [p + 1..c - 1]) @ [c..l]"
    by (simp only:)
  then show ?thesis
    unfolding weekdaySpan_def weekdaysIn_def
    by (simp only: filter_append filter.simps length_append list.size append_Cons append_Nil split: if_splits) simp
qed

lemma gapsFrom_account:
  assumes "0 \<le> off" "off < msPerDay"
  shows "sorted_wrt (<) (p # ds) \<Longrightarrow>
   \<exists>g. gapsFrom (fixedZone off) p ds = Some g \<and> (\<forall>x \<in> set g. 0 < days x) \<and>
       sum_list (map days g) + weekdaysIn (p # ds) = weekdaySpan p (last (p # ds))"
proof (induction ds arbitrary: p)
  case Nil
  show ?case by (simp add: weekdaySpan_def weekdaysIn_def)
next
  case (Cons c rest)
  from Cons.prems have pc: "p < c" and srt: "sorted_wrt (<) (c # rest)" by auto
  from srt have "c \<le> last (c # rest)"
    by (cases rest rule: rev_cases) (auto simp: sorted_wrt_append)
  with pc have sp: "weekdaySpan p (last (c # rest))
      = weekdaysIn [p] + weekdaysIn [p + 1..c - 1] + weekdaySpan c (last (c # rest))"
    by (rule span_split)
  obtain g where g: "gapBetween (fixedZone off) p c = Some g"
      "sum_list (map days g) = weekdaysIn [p + 1..c - 1]" "\<forall>x \<in> set g. 0 < days x"
    using gapBetween_days [OF assms] by blast
  obtain gs where gs: "gapsFrom (fixedZone off) c rest = Some gs" "\<forall>x \<in> set gs. 0 < days x"
      "sum_list (map days gs) + weekdaysIn (c # rest) = weekdaySpan c (last (c # rest))"
    using Cons.IH [OF srt] by blast
  have r: "gapsFrom (fixedZone off) p (c # rest) = Some (g @ gs)" by (simp add: g gs)
  have l: "last (p # c # rest) = last (c # rest)" by simp
  have w: "weekdaysIn (p # c # rest) = weekdaysIn [p] + weekdaysIn (c # rest)"
    by (simp add: weekdaysIn_def)
  have "sum_list (map days (g @ gs)) + weekdaysIn (p # c # rest)
          = weekdaySpan p (last (p # c # rest))"
    using sp g(2) gs(3) by (simp only: l w map_append sum_list_append)
  moreover have "\<forall>x \<in> set (g @ gs). 0 < days x" using g(3) gs(2) by auto
  ultimately show ?case using r by blast
qed

lemma findGaps_accounting_east_of_utc:
  assumes "0 \<le> off" "off < msPerDay" "2 \<le> length D" "sorted_wrt (<) (map date D)"
  shows "\<exists>gaps. findGaps (fixedZone off) D = Some gaps \<and> (\<forall>g \<in> set gaps. 0 < days g) \<and>
           sum_list (map days gaps) + weekdaysIn (map date D)
             = weekdaySpan (date (hd D)) (date (last D))"
proof -
  from assms(3) obtain x xs where D: "D = x # xs" by (cases D) auto
  with assms(4) have "sorted_wrt (<) (date x # map date xs)" by simp
  from gapsFrom_account [OF assms(1,2) this]
  obtain g where g: "gapsFrom (fixedZone off) (date x) (map date xs) = Some g"
      "\<forall>y \<in> set g. 0 < days y"
      "sum_list (map days g) + weekdaysIn (date x # map date xs)
         = weekdaySpan (date x) (last (date x # map date xs))"
    by blast
  have ne: "xs \<noteq> []" using D assms(3) by auto
  then have "last (date x # map date xs) = date (last xs)"
    by (simp add: last_map)
  with g D ne show ?thesis
    by (simp add: findGaps_def)
qed

section \<open>Properties of the update planner\<close>

lemmas example_defs = example_bar_def example_storage_def example_stocker_def example_env_def
  example_series_def example_gappy_storage_def example_gappy_series_def

lemmas eval_defs = toUpperCase_def toUpperChar_def getParquetPath_def exists_def getDaily_def
  toStorage_def fromStorage_def ymd_def

lemma toUpperChar_idem: "toUpperChar (toUpperChar c) = toUpperChar c"
  by (cases c) (auto simp add: toUpperChar_def)

lemma toUpperCase_idem: "toUpperCase (toUpperCase t) = toUpperCase t"
  by (simp add: toUpperCase_def toUpperChar_idem)

lemma requests_fetch:
  "requests (fst (fetch env now s t opts))
     = requests s @ [(toUpperCase t, options.start opts, options.end_date opts)]"
  by (simp add: fetch_def Let_def split: sum.splits)

lemma getDaily_sorted:
  assumes "getDaily st t None None = Inr data"
  shows "sorted (map date data)"
  using assms
  by (auto simp add: getDaily_def fromStorage_def comp_def split: option.splits if_splits)

lemma last_is_max:
  assumes "sorted (map date data)" "d \<in> set data"
  shows "date d \<le> date (last data)"
  using assms
  by (induction data) (auto split: if_splits)

lemma fst_report:
  "fst (case p of
          (s', Some e) \<Rightarrow> (s', a s' e)
        | (s', None) \<Rightarrow>
            (case g s' of
               Inl e \<Rightarrow> (s', b s' e)
             | Inr None \<Rightarrow> (s', c s')
             | Inr (Some m) \<Rightarrow> (s', d s' m))) = fst p"
  by (simp split: prod.splits option.splits sum.splits)

lemma requests_fetchOne_update:
  assumes "db (storage s)"
    and "exists (storage s) (toUpperCase t)"
    and "stock_metadata (storage s) (toUpperCase t) = Some m"
    and "FetchCommand.update cmd"
  shows "requests (fst (fetchOne env now z cmd (s, out) t))
           = requests s @ [(toUpperCase t,
               Some (formatDate z (last_update m + 24 * 60 * 60 * 1000)),
               FetchCommand.end_date cmd)]"
proof -
  have f: "\<And>opts. requests (fst (fetch env now s (toUpperCase t) opts))
     = requests s @ [(toUpperCase t, options.start opts, options.end_date opts)]"
    by (simp add: requests_fetch toUpperCase_idem)
  show ?thesis
    unfolding fetchOne_def Let_def
    using assms by (simp add: fst_report f getLastUpdate_def getMetadata_def)
qed

text \<open>
  C4, as amended. When the symbol has a persisted series in which the gap detector finds
  no gap, \<open>updateSmart\<close> (which takes no dates from its caller) calls \<open>fetch\<close> with \<open>update\<close>
  set and a start one day after the last date of the series, which is the greatest date
  there is, and the request to the data source has that start and no end; for a last
  date 2024-01-10 the start is 2024-01-11. This is for a process whose offset from UTC
  is the same a local day after the midnight UTC of the last date as at that midnight.
  The command \<^verbatim>\<open>stocker fetch --update\<close>, given no dates, for a ticker with a file and a
  metadata row starts on the local day of the last-update timestamp plus 24 hours;
  and \<open>fetch\<close> called with \<open>update\<close> and no dates asks for the whole history.
\<close>

theorem updateSmart_tail:
  "(exists (storage s) (toUpperCase t) \<and>
    getDaily (storage s) (toUpperCase t) None None = Inr data \<and>
    data \<noteq> [] \<and>
    findGaps z data = Some [] \<and>
    localOffset z (LocalTime z (newDate (date (last data))) + msPerDay)
      = utcOffset z (newDate (date (last data)))
    \<longrightarrow>
      updateSmart env now z s t
        = Some (fetch env now s t
            (no_options\<lparr>options.start := Some (date (last data) + 1), options.update := True\<rparr>)) \<and>
      requests (fst (fetch env now s t
            (no_options\<lparr>options.start := Some (date (last data) + 1), options.update := True\<rparr>)))
        = requests s @ [(toUpperCase t, Some (date (last data) + 1), None)] \<and>
      (\<forall>d \<in> set data. date d \<le> date (last data)) \<and>
      (date (last data) = ymd 2024 1 10 \<longrightarrow> date (last data) + 1 = ymd 2024 1 11)) \<and>
   (db (storage s) \<and> exists (storage s) (toUpperCase t) \<and>
    stock_metadata (storage s) (toUpperCase t) = Some m \<and>
    FetchCommand.update cmd \<and> FetchCommand.start cmd = None \<and> FetchCommand.end_date cmd = None
    \<longrightarrow>
      requests (fst (fetchOne env now z cmd (s, out) t))
        = requests s @ [(toUpperCase t,
            Some (formatDate z (last_update m + 24 * 60 * 60 * 1000)), None)]) \<and>
   requests (fst (fetch env now s t (no_options\<lparr>options.update := True\<rparr>)))
     = requests s @ [(toUpperCase t, None, None)]"
proof (intro conjI impI)
  assume h: "exists (storage s) (toUpperCase t) \<and>
    getDaily (storage s) (toUpperCase t) None None = Inr data \<and>
    data \<noteq> [] \<and>
    findGaps z data = Some [] \<and>
    localOffset z (LocalTime z (newDate (date (last data))) + msPerDay)
      = utcOffset z (newDate (date (last data)))"
  then have "addDays z (newDate (date (last data))) 1 = newDate (date (last data)) + msPerDay"
    by (simp add: addDays_def UTC_def LocalTime_def)
  then have "toISODate (addDays z (newDate (date (last data))) 1) = date (last data) + 1"
    by (simp add: toISODate_def newDate_def msPerDay_def)
  with h show "updateSmart env now z s t
        = Some (fetch env now s t
            (no_options\<lparr>options.start := Some (date (last data) + 1), options.update := True\<rparr>))"
    by (simp add: updateSmart_def Let_def)
  show "requests (fst (fetch env now s t
            (no_options\<lparr>options.start := Some (date (last data) + 1), options.update := True\<rparr>)))
        = requests s @ [(toUpperCase t, Some (date (last data) + 1), None)]"
    by (simp add: requests_fetch no_options_def)
  from h show "\<forall>d \<in> set data. date d \<le> date (last data)"
    using getDaily_sorted last_is_max by blast
next
  assume "date (last data) = ymd 2024 1 10"
  then show "date (last data) + 1 = ymd 2024 1 11" by (simp add: ymd_def)
next
  assume c: "db (storage s) \<and> exists (storage s) (toUpperCase t) \<and>
    stock_metadata (storage s) (toUpperCase t) = Some m \<and>
    FetchCommand.update cmd \<and> FetchCommand.start cmd = None \<and> FetchCommand.end_date cmd = None"
  then show "requests (fst (fetchOne env now z cmd (s, out) t))
        = requests s @ [(toUpperCase t,
            Some (formatDate z (last_update m + 24 * 60 * 60 * 1000)), None)]"
    using requests_fetchOne_update [of s t m cmd env now z out] by simp
next
  show "requests (fst (fetch env now s t (no_options\<lparr>options.update := True\<rparr>)))
     = requests s @ [(toUpperCase t, None, None)]"
    by (simp add: requests_fetch no_options_def)
qed


theorem updateSmart_tail_witness:
  "exists (storage example_stocker) (toUpperCase ''aapl'') \<and>
   getDaily (storage example_stocker) (toUpperCase ''aapl'') None None = Inr example_series \<and>
   example_series \<noteq> [] \<and>
   findGaps zone_utc example_series = Some [] \<and>
   localOffset zone_utc (LocalTime zone_utc (newDate (date (last example_series))) + msPerDay)
     = utcOffset zone_utc (newDate (date (last example_series))) \<and>
   date (last example_series) = ymd 2024 1 10 \<and>
   updateSmart example_env 0 zone_utc example_stocker ''aapl''
     = Some (fetch example_env 0 example_stocker ''aapl''
         (no_options\<lparr>options.start := Some (ymd 2024 1 11), options.update := True\<rparr>)) \<and>
   requests (fst (fetch example_env 0 example_stocker ''aapl''
         (no_options\<lparr>options.start := Some (ymd 2024 1 11), options.update := True\<rparr>)))
     = [(''AAPL'', Some (ymd 2024 1 11), None)] \<and>
   db (storage example_stocker) \<and>
   FetchCommand.update (example_command\<lparr>FetchCommand.update := True\<rparr>) \<and>
   requests (fst (fetchOne example_env 0 zone_utc (example_command\<lparr>FetchCommand.update := True\<rparr>)
       (example_stocker, []) ''aapl''))
     = [(''AAPL'', Some (ymd 2024 1 14), None)]"
proof -
  let ?m = "\<lparr>metadata_row.ticker = ''AAPL'', first_trade_date = ymd 2024 1 9,
          last_trade_date = ymd 2024 1 10, last_update = 1705147200000,
          data_source = ''eod'', record_count = 2\<rparr>"
  let ?cmd = "example_command\<lparr>FetchCommand.update := True\<rparr>"
  have h1: "exists (storage example_stocker) (toUpperCase ''aapl'')"
    by (simp add: example_defs eval_defs)
  have h2: "getDaily (storage example_stocker) (toUpperCase ''aapl'') None None = Inr example_series"
    by (simp add: example_defs eval_defs)
  have h3: "example_series \<noteq> []"
    by (simp add: example_defs)
  have h4: "findGaps zone_utc example_series = Some []"
    by (simp add: example_defs eval_defs gap_defs zone_defs)
  have h5: "localOffset zone_utc (LocalTime zone_utc (newDate (date (last example_series))) + msPerDay)
     = utcOffset zone_utc (newDate (date (last example_series)))"
    by (simp add: zone_utc_def fixedZone_def)
  have l: "date (last example_series) = ymd 2024 1 10"
    by (simp add: example_defs eval_defs)
  have u: "toUpperCase ''aapl'' = ''AAPL''"
    by (simp add: eval_defs)
  have c1: "db (storage example_stocker)" by (simp add: example_defs)
  have c3: "stock_metadata (storage example_stocker) (toUpperCase ''aapl'') = Some ?m"
    by (simp add: example_defs eval_defs)
  have c4: "FetchCommand.update ?cmd \<and> FetchCommand.start ?cmd = None \<and> FetchCommand.end_date ?cmd = None"
    by (simp add: example_command_def)
  have f: "formatDate zone_utc (last_update ?m + 24 * 60 * 60 * 1000) = ymd 2024 1 14"
    by (simp add: formatDate_def zone_defs ymd_def)
  note inst = updateSmart_tail [where s = example_stocker and t = "''aapl''" and data = example_series
      and z = zone_utc and env = example_env and now = 0 and m = ?m and cmd = ?cmd and out = "[]"]
  from inst h1 h2 h3 h4 h5 l
  have a: "updateSmart example_env 0 zone_utc example_stocker ''aapl''
     = Some (fetch example_env 0 example_stocker ''aapl''
         (no_options\<lparr>options.start := Some (ymd 2024 1 11), options.update := True\<rparr>))"
    by (simp add: ymd_def)
  from inst h1 h2 h3 h4 h5 l u
  have b: "requests (fst (fetch example_env 0 example_stocker ''aapl''
         (no_options\<lparr>options.start := Some (ymd 2024 1 11), options.update := True\<rparr>)))
     = [(''AAPL'', Some (ymd 2024 1 11), None)]"
    by (simp add: ymd_def example_stocker_def)
  from inst c1 h1 c3 c4 f u
  have c: "requests (fst (fetchOne example_env 0 zone_utc ?cmd (example_stocker, []) ''aapl''))
     = [(''AAPL'', Some (ymd 2024 1 14), None)]"
    by (simp add: example_stocker_def)
  from h1 h2 h3 h4 h5 l a b c1 c4 c show ?thesis by blast
qed

text \<open>
  C4 as stated fails on the command: for the stored series that ends on 2024-01-10 and
  has no gap, last updated on 2024-01-13, \<^verbatim>\<open>stocker fetch --update\<close> with no dates asks
  for data from 2024-01-14 on, and \<open>fetch\<close> called with \<open>update\<close> only asks for everything.
\<close>

theorem cli_update_tail:
  "exists (storage example_stocker) (toUpperCase ''aapl'') \<and>
   getDaily (storage example_stocker) (toUpperCase ''aapl'') None None = Inr example_series \<and>
   findGaps zone_utc example_series = Some [] \<and>
   date (last example_series) = ymd 2024 1 10 \<and>
   requests (fst (fetchOne example_env 0 zone_utc (example_command\<lparr>FetchCommand.update := True\<rparr>)
       (example_stocker, []) ''aapl''))
     = [(''AAPL'', Some (ymd 2024 1 14), None)] \<and>
   ymd 2024 1 14 \<noteq> ymd 2024 1 11 \<and>
   requests (fst (fetch example_env 0 example_stocker ''aapl'' (no_options\<lparr>options.update := True\<rparr>)))
     = [(''AAPL'', None, None)]"
  by (simp add: fetchOne_def fetch_def getLastUpdate_def getMetadata_def formatDate_def
      example_command_def no_options_def example_defs eval_defs gap_defs zone_defs Let_def)

text \<open>
  Where the clocks go forward in the local day after the last date, \<open>updateSmart\<close> asks
  for data from the last date itself: the series ends on Thursday 2024-04-25, whose
  midnight UTC is 02:00 local; a local day later it is 02:00 on the 26th, an hour after
  the change, which is 23:00 UTC on the 25th.
\<close>

lemma updateSmart_tail_across_dst:
  "updateSmart example_env 0 zone_dst (example_stocker\<lparr>storage := example_april_storage\<rparr>) ''aapl''
     = Some (fetch example_env 0 (example_stocker\<lparr>storage := example_april_storage\<rparr>) ''aapl''
         (no_options\<lparr>options.start := Some (ymd 2024 4 25), options.update := True\<rparr>))"
  by (simp add: updateSmart_def example_april_storage_def example_defs eval_defs gap_defs
      zone_defs Let_def)

text \<open>
  C5: when the gap detector reports a gap in the persisted series of the symbol,
  \<open>updateSmart\<close> calls \<open>fetch\<close> with \<open>update\<close> set and no dates, and the request to the
  data source has neither start nor end: the whole history.
\<close>

theorem updateSmart_backfill:
  assumes "exists (storage s) (toUpperCase t)"
    and "getDaily (storage s) (toUpperCase t) None None = Inr data"
    and "findGaps z data = Some gaps"
    and "gaps \<noteq> []"
  shows "updateSmart env now z s t = Some (fetch env now s t (no_options\<lparr>options.update := True\<rparr>))
         \<and> requests (fst (fetch env now s t (no_options\<lparr>options.update := True\<rparr>)))
             = requests s @ [(toUpperCase t, None, None)]
         \<and> options.start (no_options\<lparr>options.update := True\<rparr>) = None
         \<and> options.end_date (no_options\<lparr>options.update := True\<rparr>) = None
         \<and> options.update (no_options\<lparr>options.update := True\<rparr>)"
proof -
  have u: "updateSmart env now z s t = Some (fetch env now s t (no_options\<lparr>options.update := True\<rparr>))"
    using assms by (simp add: updateSmart_def Let_def)
  have r: "requests (fst (fetch env now s t (no_options\<lparr>options.update := True\<rparr>)))
             = requests s @ [(toUpperCase t, None, None)]"
    by (simp add: requests_fetch no_options_def)
  from u r show ?thesis by (simp add: no_options_def)
qed

theorem updateSmart_backfill_witness:
  "exists example_gappy_storage (toUpperCase ''aapl'') \<and>
   getDaily example_gappy_storage (toUpperCase ''aapl'') None None = Inr example_gappy_series \<and>
   findGaps zone_utc example_gappy_series
     = Some [\<lparr>gap.start = ymd 2024 1 8, gap.end_date = ymd 2024 1 9, days = 2\<rparr>] \<and>
   updateSmart example_env 0 zone_utc (example_stocker\<lparr>storage := example_gappy_storage\<rparr>) ''aapl''
     = Some (fetch example_env 0 (example_stocker\<lparr>storage := example_gappy_storage\<rparr>) ''aapl''
         (no_options\<lparr>options.update := True\<rparr>)) \<and>
   requests (fst (fetch example_env 0 (example_stocker\<lparr>storage := example_gappy_storage\<rparr>) ''aapl''
         (no_options\<lparr>options.update := True\<rparr>)))
     = [(''AAPL'', None, None)]"
proof -
  let ?s = "example_stocker\<lparr>storage := example_gappy_storage\<rparr>"
  let ?g = "[\<lparr>gap.start = ymd 2024 1 8, gap.end_date = ymd 2024 1 9, days = 2\<rparr>]"
  have h1: "exists (storage ?s) (toUpperCase ''aapl'')"
    by (simp add: example_defs eval_defs)
  have h2: "getDaily (storage ?s) (toUpperCase ''aapl'') None None = Inr example_gappy_series"
    by (simp add: example_defs eval_defs)
  have h3: "findGaps zone_utc example_gappy_series = Some ?g"
    by (simp add: example_defs eval_defs gap_defs zone_defs)
  have h4: "?g \<noteq> []" by simp
  have u: "toUpperCase ''aapl'' = ''AAPL''"
    by (simp add: eval_defs)
  from updateSmart_backfill [OF h1 h2 h3 h4, of example_env 0] u
  have "updateSmart example_env 0 zone_utc ?s ''aapl''
     = Some (fetch example_env 0 ?s ''aapl'' (no_options\<lparr>options.update := True\<rparr>)) \<and>
   requests (fst (fetch example_env 0 ?s ''aapl'' (no_options\<lparr>options.update := True\<rparr>)))
     = [(''AAPL'', None, None)]"
    by (simp add: example_stocker_def)
  with h1 h2 h3 show ?thesis by simp
qed

text \<open>
  C6 fails on the command: with \<^verbatim>\<open>--start 2020-01-01 --update\<close> on a stored ticker last
  updated on 2024-01-13, the start given is dropped and the request starts on
  2024-01-14; \<open>fetch\<close> called with the same start and \<open>update\<close> asks for 2020-01-01.
\<close>

theorem cli_update_overrides_start:
  "requests (fst (fetchOne example_env 0 zone_utc
       (example_command\<lparr>FetchCommand.start := Some (ymd 2020 1 1), FetchCommand.update := True\<rparr>)
       (example_stocker, []) ''aapl''))
     = [(''AAPL'', Some (ymd 2024 1 14), None)]
   \<and> ymd 2024 1 14 \<noteq> ymd 2020 1 1
   \<and> requests (fst (fetch example_env 0 example_stocker ''aapl''
       (no_options\<lparr>options.start := Some (ymd 2020 1 1), options.update := True\<rparr>)))
     = [(''AAPL'', Some (ymd 2020 1 1), None)]"
  by (simp add: fetchOne_def fetch_def getLastUpdate_def getMetadata_def formatDate_def
      example_command_def no_options_def example_defs eval_defs zone_defs Let_def)

text \<open>
  Outside that case the command passes its dates on: it issues at most one request for
  a ticker, always with the end it was given, and with the start it was given unless
  \<^verbatim>\<open>--update\<close> is set and the ticker has a file and a metadata row.
\<close>

lemma requests_fetchOne:
  "requests (fst (fetchOne env now z cmd (s, out) t)) = requests s \<or>
   requests (fst (fetchOne env now z cmd (s, out) t))
     = requests s @ [(toUpperCase t,
         (case (if FetchCommand.update cmd \<and> exists (storage s) (toUpperCase t)
                then stock_metadata (storage s) (toUpperCase t) else None) of
            Some m \<Rightarrow> Some (formatDate z (last_update m + 24 * 60 * 60 * 1000))
          | None \<Rightarrow> FetchCommand.start cmd),
         FetchCommand.end_date cmd)]"
proof -
  have f: "\<And>opts. requests (fst (fetch env now s (toUpperCase t) opts))
     = requests s @ [(toUpperCase t, options.start opts, options.end_date opts)]"
    by (simp add: requests_fetch toUpperCase_idem)
  show ?thesis
    unfolding fetchOne_def Let_def
    by (simp add: fst_report f getLastUpdate_def getMetadata_def
        split: sum.splits option.splits)
qed

text \<open>
  C9: \<open>mergeDaily\<close> with no incoming bars returns the storage as it is, without error;
  and when the data source returns no records, \<open>fetch\<close> ends without error and leaves
  the storage (files and metadata rows, so every last-update timestamp) and the
  registry as they were.
\<close>

theorem empty_incoming_is_noop:
  "mergeDaily st now t [] = Inr st \<and>
   (fetchDaily env (toUpperCase t) (options.start opts) (options.end_date opts) = Inr [] \<longrightarrow>
      storage (fst (fetch env now s t opts)) = storage s \<and>
      registry (fst (fetch env now s t opts)) = registry s \<and>
      snd (fetch env now s t opts) = None)"
  by (simp add: mergeDaily_def fetch_def Let_def)

theorem empty_incoming_is_noop_witness:
  "fetchDaily example_env (toUpperCase ''aapl'') None None = Inr [] \<and>
   storage (fst (fetch example_env 0 example_stocker ''aapl'' no_options)) = storage example_stocker \<and>
   registry (fst (fetch example_env 0 example_stocker ''aapl'' no_options)) = registry example_stocker \<and>
   snd (fetch example_env 0 example_stocker ''aapl'' no_options) = None \<and>
   mergeDaily example_storage 0 ''aapl'' [] = Inr example_storage"
  using empty_incoming_is_noop [where st = example_storage and now = 0 and t = "''aapl''"
      and env = example_env and opts = no_options and s = example_stocker]
  by (simp add: example_env_def no_options_def)

text \<open>
  For a ticker that has a file and a metadata row in an initialised store, without
  \<^verbatim>\<open>--update\<close> and without \<^verbatim>\<open>--force\<close> (whatever dates are given), the command issues no
  fetch, changes nothing, and prints that the ticker already exists, with its last update.
\<close>

lemma existing_ticker_skipped:
  assumes "db (storage s)"
    and "exists (storage s) (toUpperCase t)"
    and "stock_metadata (storage s) (toUpperCase t) = Some m"
    and "\<not> FetchCommand.update cmd"
    and "\<not> force cmd"
  shows "fetchOne env now z cmd (s, out) t
           = (s, out @ [AlreadyExists (toUpperCase t) (last_update m)])"
  using assms by (simp add: fetchOne_def getMetadata_def)

text \<open>
  C10 fails when the file is there but the metadata row is not: without \<^verbatim>\<open>--update\<close> and
  without \<^verbatim>\<open>--force\<close> the command goes on to fetch the whole history. When the data
  source has nothing it prints nothing about the ticker; when it answers with the bar
  of 2024-01-08, the stored series of 2024-01-09 and 2024-01-10 is overwritten by that
  bar and the command reports a successful fetch.
\<close>

theorem existing_without_metadata_is_fetched:
  "exists (example_storage\<lparr>stock_metadata := Map.empty\<rparr>) (toUpperCase ''aapl'') \<and>
   \<not> FetchCommand.update example_command \<and> \<not> force example_command \<and>
   map_option (map date) (files example_storage ''data/stocks/AAPL/daily.parquet'')
     = Some [ymd 2024 1 9, ymd 2024 1 10] \<and>
   fetchOne example_env 0 zone_utc example_command
       (example_stocker\<lparr>storage := example_storage\<lparr>stock_metadata := Map.empty\<rparr>\<rparr>, []) ''aapl''
     = (example_stocker\<lparr>storage := example_storage\<lparr>stock_metadata := Map.empty\<rparr>,
                        requests := [(''AAPL'', None, None)]\<rparr>, []) \<and>
   requests (fst (fetchOne example_answering_env 0 zone_utc example_command
       (example_stocker\<lparr>storage := example_storage\<lparr>stock_metadata := Map.empty\<rparr>\<rparr>, []) ''aapl''))
     = [(''AAPL'', None, None)] \<and>
   map_option (map date) (files (storage (fst (fetchOne example_answering_env 0 zone_utc example_command
       (example_stocker\<lparr>storage := example_storage\<lparr>stock_metadata := Map.empty\<rparr>\<rparr>, []) ''aapl'')))
     ''data/stocks/AAPL/daily.parquet'')
     = Some [ymd 2024 1 8] \<and>
   snd (fetchOne example_answering_env 0 zone_utc example_command
       (example_stocker\<lparr>storage := example_storage\<lparr>stock_metadata := Map.empty\<rparr>\<rparr>, []) ''aapl'')
     = [SuccessfullyFetched ''AAPL'' 1 (ymd 2024 1 8) 0]"
  by (simp add: fetchOne_def fetch_def getLastUpdate_def getMetadata_def applySplits_def
      writeDaily_def writeParquet_def writeParquet_ops_def updateMetadata_def
      example_command_def example_answering_env_def example_defs eval_defs Let_def)

section \<open>Properties of the storage\<close>

lemma distinct_map_insort_key:
  "distinct (map f (insort_key f x xs)) = (f x \<notin> f ` set xs \<and> distinct (map f xs))"
  by (induction xs) (auto simp add: set_insort_key)

lemma distinct_map_sort_key: "distinct (map f (sort_key f xs)) = distinct (map f xs)"
  by (induction xs) (simp_all add: sort_key_simps distinct_map_insort_key)

lemma set_mergeRows:
  "set (mergeRows A B) = {a \<in> set A. date a \<notin> date ` set B} \<union> set B"
  by (auto simp add: mergeRows_def)

lemma date_toStorage [simp]: "date (toStorage now d) = date d"
  by (simp add: toStorage_def)

lemma dates_mergeRows:
  "date ` set (mergeRows A B) = date ` set A \<union> date ` set B"
  unfolding set_mergeRows by blast

lemma strict_mergeRows:
  assumes "distinct (map date A)" "distinct (map date B)"
  shows "sorted_wrt (<) (map date (mergeRows A B))"
proof -
  have "distinct (map date (filter (\<lambda>r. date r \<notin> set (map date B)) A @ B))"
    using assms by (auto simp add: distinct_map_filter)
  then have "distinct (map date (mergeRows A B))"
    unfolding mergeRows_def by (simp only: distinct_map_sort_key)
  moreover have "sorted (map date (mergeRows A B))"
    unfolding mergeRows_def by (rule sorted_sort_key)
  ultimately show ?thesis by (simp add: strict_sorted_iff)
qed

lemma tempPath_neq: "tempPath p \<noteq> p"
  by (simp add: tempPath_def)

lemma mergeParquet_existing:
  assumes "db st" "files st p = Some A" "B \<noteq> []"
  shows "mergeParquet st p B = Inr (st\<lparr>files := (files st)(p \<mapsto> mergeRows A B, tempPath p := None)\<rparr>)"
proof -
  have "(files st)(tempPath p \<mapsto> mergeRows A B, p \<mapsto> mergeRows A B, tempPath p := None)
        = (files st)(p \<mapsto> mergeRows A B, tempPath p := None)"
    using tempPath_neq [of p] by (auto simp add: fun_eq_iff)
  with assms show ?thesis
    by (simp add: mergeParquet_def mergeParquet_ops_def)
qed

lemma updateMetadata_files:
  "updateMetadata st now t data = Inr st' \<Longrightarrow> files st' = files st \<and> stocksDir st' = stocksDir st"
  by (auto simp add: updateMetadata_def Let_def split: if_splits option.splits)

lemma mergeDaily_existing:
  assumes "db st" "files st (getParquetPath st t) = Some A" "B \<noteq> []"
  shows "\<exists>st'. mergeDaily st now t B = Inr st' \<and>
           files st' (getParquetPath st' t) = Some (mergeRows A (map (toStorage now) B))"
proof -
  let ?p = "getParquetPath st t"
  let ?R = "mergeRows A (map (toStorage now) B)"
  let ?st1 = "st\<lparr>files := (files st)(?p \<mapsto> ?R, tempPath ?p := None)\<rparr>"
  have m: "mergeParquet st ?p (map (toStorage now) B) = Inr ?st1"
    using assms by (simp add: mergeParquet_existing)
  have p1: "getParquetPath ?st1 t = ?p" by (simp add: getParquetPath_def)
  have f1: "files ?st1 ?p = Some ?R" using tempPath_neq [of ?p] by simp
  have "\<exists>st'. updateMetadata ?st1 now t B = Inr st'"
    using assms f1 p1 by (simp add: updateMetadata_def Let_def)
  then obtain st' where u: "updateMetadata ?st1 now t B = Inr st'" ..
  from updateMetadata_files [OF u] have "files st' = files ?st1" "stocksDir st' = stocksDir st"
    by simp_all
  then have "files st' (getParquetPath st' t) = Some ?R"
    using f1 by (simp add: getParquetPath_def)
  moreover have "mergeDaily st now t B = Inr st'"
    using assms m u by (simp add: mergeDaily_def)
  ultimately show ?thesis by blast
qed

text \<open>
  C1: let the symbol have a persisted series \<open>A\<close> and let \<open>B\<close> be a non-empty incoming
  series, each with one bar per date. Then \<open>mergeDaily\<close> succeeds, and the series \<open>R\<close> it
  leaves has exactly the dates of \<open>A\<close> and \<open>B\<close>, in strictly ascending order; a bar of \<open>R\<close>
  on a date of \<open>B\<close> is the bar of \<open>B\<close> for that date in its stored form: its prices, volume
  and adjusted values are those of the bar of \<open>B\<close>, its percent change, split flag, data
  source and fetch time are those of the bar of \<open>B\<close> where it has them, and otherwise 0,
  false, \<^verbatim>\<open>eod\<close> and the time of the merge. A bar of \<open>R\<close> on any other date is a bar of
  \<open>A\<close>, and every bar of \<open>B\<close> and every bar of \<open>A\<close> whose date is not in \<open>B\<close> is in \<open>R\<close>.
\<close>

theorem mergeDaily_union:
  assumes "db st"
    and "files st (getParquetPath st t) = Some A"
    and "B \<noteq> []"
    and "distinct (map date A)"
    and "distinct (map date B)"
  shows "\<exists>st' R. mergeDaily st now t B = Inr st' \<and>
           files st' (getParquetPath st' t) = Some R \<and>
           set (map date R) = set (map date A) \<union> set (map date B) \<and>
           sorted_wrt (<) (map date R) \<and>
           (\<forall>r \<in> set R. \<forall>b \<in> set B. date r = date b \<longrightarrow>
              r = toStorage now b \<and>
              row.open' r = ohlcv.open' b \<and> row.high r = ohlcv.high b \<and>
              row.low r = ohlcv.low b \<and> row.close r = ohlcv.close b \<and>
              row.volume r = ohlcv.volume b \<and>
              adj_open r = adjOpen b \<and> adj_high r = adjHigh b \<and> adj_low r = adjLow b \<and>
              adj_close r = adjClose b \<and> adj_volume r = adjVolume b \<and>
              percent_change r = (case percentChange b of None \<Rightarrow> 0 | Some p \<Rightarrow> p) \<and>
              row.split r = (case ohlcv.split b of None \<Rightarrow> False | Some x \<Rightarrow> x) \<and>
              row.data_source r
                = (case ohlcv.dataSource b of None \<Rightarrow> ''eod'' | Some x \<Rightarrow> if x = [] then ''eod'' else x) \<and>
              fetched_at r = (case fetchedAt b of None \<Rightarrow> now | Some x \<Rightarrow> x)) \<and>
           (\<forall>r \<in> set R. date r \<notin> set (map date B) \<longrightarrow> r \<in> set A) \<and>
           (\<forall>b \<in> set B. toStorage now b \<in> set R) \<and>
           (\<forall>a \<in> set A. date a \<notin> set (map date B) \<longrightarrow> a \<in> set R)"
proof -
  let ?B = "map (toStorage now) B"
  let ?R = "mergeRows A ?B"
  have dB: "map date ?B = map date B" by simp
  have dsB: "distinct (map date ?B)" by (simp only: dB assms(5))
  have img: "date ` set ?B = date ` set B" using dB by (metis list.set_map)
  obtain st' where st': "mergeDaily st now t B = Inr st'"
      "files st' (getParquetPath st' t) = Some ?R"
    using mergeDaily_existing [OF assms(1,2,3)] by blast
  have s: "set ?R = {a \<in> set A. date a \<notin> date ` set B} \<union> set ?B"
    by (simp only: set_mergeRows img)
  have srt: "sorted_wrt (<) (map date ?R)"
    using assms(4) dsB by (rule strict_mergeRows)
  have "date ` set ?R = date ` set A \<union> date ` set ?B"
    by (rule dates_mergeRows)
  then have dates: "set (map date ?R) = set (map date A) \<union> set (map date B)"
    by (simp add: image_image)
  have inj: "\<forall>r \<in> set ?R. \<forall>r' \<in> set ?R. date r = date r' \<longrightarrow> r = r'"
    using srt by (metis distinct_map inj_onD strict_sorted_iff)
  have inB: "\<forall>b \<in> set B. toStorage now b \<in> set ?R" using s by auto
  have c0: "\<forall>r \<in> set ?R. \<forall>b \<in> set B. date r = date b \<longrightarrow> r = toStorage now b"
  proof (intro ballI impI)
    fix r b assume "r \<in> set ?R" "b \<in> set B" "date r = date b"
    moreover have "date (toStorage now b) = date b" by simp
    ultimately show "r = toStorage now b" using inj inB by metis
  qed
  have c1: "\<forall>r \<in> set ?R. \<forall>b \<in> set B. date r = date b \<longrightarrow>
              r = toStorage now b \<and>
              row.open' r = ohlcv.open' b \<and> row.high r = ohlcv.high b \<and>
              row.low r = ohlcv.low b \<and> row.close r = ohlcv.close b \<and>
              row.volume r = ohlcv.volume b \<and>
              adj_open r = adjOpen b \<and> adj_high r = adjHigh b \<and> adj_low r = adjLow b \<and>
              adj_close r = adjClose b \<and> adj_volume r = adjVolume b \<and>
              percent_change r = (case percentChange b of None \<Rightarrow> 0 | Some p \<Rightarrow> p) \<and>
              row.split r = (case ohlcv.split b of None \<Rightarrow> False | Some x \<Rightarrow> x) \<and>
              row.data_source r
                = (case ohlcv.dataSource b of None \<Rightarrow> ''eod'' | Some x \<Rightarrow> if x = [] then ''eod'' else x) \<and>
              fetched_at r = (case fetchedAt b of None \<Rightarrow> now | Some x \<Rightarrow> x)"
  proof (intro ballI impI)
    fix r b assume "r \<in> set ?R" "b \<in> set B" "date r = date b"
    with c0 have "r = toStorage now b" by blast
    then show "r = toStorage now b \<and>
              row.open' r = ohlcv.open' b \<and> row.high r = ohlcv.high b \<and>
              row.low r = ohlcv.low b \<and> row.close r = ohlcv.close b \<and>
              row.volume r = ohlcv.volume b \<and>
              adj_open r = adjOpen b \<and> adj_high r = adjHigh b \<and> adj_low r = adjLow b \<and>
              adj_close r = adjClose b \<and> adj_volume r = adjVolume b \<and>
              percent_change r = (case percentChange b of None \<Rightarrow> 0 | Some p \<Rightarrow> p) \<and>
              row.split r = (case ohlcv.split b of None \<Rightarrow> False | Some x \<Rightarrow> x) \<and>
              row.data_source r
                = (case ohlcv.dataSource b of None \<Rightarrow> ''eod'' | Some x \<Rightarrow> if x = [] then ''eod'' else x) \<and>
              fetched_at r = (case fetchedAt b of None \<Rightarrow> now | Some x \<Rightarrow> x)"
      by (simp add: toStorage_def)
  qed
  have c2: "\<forall>r \<in> set ?R. date r \<notin> set (map date B) \<longrightarrow> r \<in> set A"
    using s img by auto
  have c3: "\<forall>a \<in> set A. date a \<notin> set (map date B) \<longrightarrow> a \<in> set ?R"
    using s by auto
  from st' dates srt c1 c2 inB c3 show ?thesis by blast
qed

theorem mergeDaily_union_witness:
  "db example_storage \<and>
   files example_storage (getParquetPath example_storage ''AAPL'') = Some example_rows \<and>
   example_incoming \<noteq> [] \<and>
   distinct (map date example_rows) \<and>
   distinct (map date example_incoming) \<and>
   (\<exists>st' R. mergeDaily example_storage 1 ''AAPL'' example_incoming = Inr st' \<and>
      files st' (getParquetPath st' ''AAPL'') = Some R \<and>
      set (map date R) = {ymd 2024 1 9, ymd 2024 1 10, ymd 2024 1 11} \<and>
      sorted_wrt (<) (map date R) \<and>
      (\<forall>b \<in> set example_incoming. toStorage 1 b \<in> set R) \<and>
      (\<forall>r \<in> set R. date r = ymd 2024 1 10 \<longrightarrow> row.close r = 190 \<and> row.volume r = 1000) \<and>
      (\<forall>r \<in> set R. date r = ymd 2024 1 9 \<longrightarrow> r \<in> set example_rows))"
proof -
  have h1: "db example_storage" by (simp add: example_storage_def)
  have h2: "files example_storage (getParquetPath example_storage ''AAPL'') = Some example_rows"
    by (simp add: example_storage_def example_rows_def getParquetPath_def)
  have h3: "example_incoming \<noteq> []" by (simp add: example_incoming_def)
  have h4: "distinct (map date example_rows)"
    by (simp add: example_rows_def example_bar_def ymd_def)
  have h5: "distinct (map date example_incoming)"
    by (simp add: example_incoming_def example_bar_def ymd_def)
  have d: "set (map date example_rows) \<union> set (map date example_incoming)
             = {ymd 2024 1 9, ymd 2024 1 10, ymd 2024 1 11}"
    by (auto simp add: example_rows_def example_incoming_def example_bar_def)
  let ?b = "(example_bar (ymd 2024 1 10))\<lparr>ohlcv.close := 190\<rparr>"
  have b: "?b \<in> set example_incoming" "date ?b = ymd 2024 1 10"
      "ohlcv.close ?b = 190" "ohlcv.volume ?b = 1000"
    by (simp_all add: example_incoming_def example_bar_def)
  have n9: "ymd 2024 1 9 \<notin> set (map date example_incoming)"
    by (simp add: example_incoming_def example_bar_def ymd_def)
  from mergeDaily_union [OF h1 h2 h3 h4 h5, of 1]
  obtain st' R where r: "mergeDaily example_storage 1 ''AAPL'' example_incoming = Inr st'"
      "files st' (getParquetPath st' ''AAPL'') = Some R"
      "set (map date R) = set (map date example_rows) \<union> set (map date example_incoming)"
      "sorted_wrt (<) (map date R)"
      "\<forall>b \<in> set example_incoming. toStorage 1 b \<in> set R"
    and f: "\<forall>r \<in> set R. \<forall>b \<in> set example_incoming. date r = date b \<longrightarrow>
              row.close r = ohlcv.close b \<and> row.volume r = ohlcv.volume b"
    and k: "\<forall>r \<in> set R. date r \<notin> set (map date example_incoming) \<longrightarrow> r \<in> set example_rows"
    by blast
  from f b have f10: "\<forall>r \<in> set R. date r = ymd 2024 1 10 \<longrightarrow> row.close r = 190 \<and> row.volume r = 1000"
    by metis
  from k n9 have k9: "\<forall>r \<in> set R. date r = ymd 2024 1 9 \<longrightarrow> r \<in> set example_rows"
    by metis
  from r d f10 k9 have "\<exists>st' R. mergeDaily example_storage 1 ''AAPL'' example_incoming = Inr st' \<and>
      files st' (getParquetPath st' ''AAPL'') = Some R \<and>
      set (map date R) = {ymd 2024 1 9, ymd 2024 1 10, ymd 2024 1 11} \<and>
      sorted_wrt (<) (map date R) \<and>
      (\<forall>b \<in> set example_incoming. toStorage 1 b \<in> set R) \<and>
      (\<forall>r \<in> set R. date r = ymd 2024 1 10 \<longrightarrow> row.close r = 190 \<and> row.volume r = 1000) \<and>
      (\<forall>r \<in> set R. date r = ymd 2024 1 9 \<longrightarrow> r \<in> set example_rows)"
    by (simp only:) blast
  with h1 h2 h3 h4 h5 show ?thesis by blast
qed

text \<open>
  C7 fails for a merge: \<open>updateMetadata\<close> takes the first and last date from the incoming
  bars only. Merging the single bar of 2024-01-11 into the series of 2024-01-09 and
  2024-01-10 leaves three rows and a count of 3, but a first date of 2024-01-11.
\<close>

theorem mergeDaily_metadata_from_incoming:
  "\<exists>st'. mergeDaily example_storage 1 ''AAPL'' [example_bar (ymd 2024 1 11)] = Inr st' \<and>
     map_option (map date) (files st' (getParquetPath st' ''AAPL''))
       = Some [ymd 2024 1 9, ymd 2024 1 10, ymd 2024 1 11] \<and>
     map_option first_trade_date (stock_metadata st' ''AAPL'') = Some (ymd 2024 1 11) \<and>
     map_option record_count (stock_metadata st' ''AAPL'') = Some 3"
  by (simp add: mergeDaily_def mergeParquet_def mergeParquet_ops_def updateMetadata_def
      mergeRows_def tempPath_def getParquetPath_def example_storage_def example_bar_def
      toStorage_def ymd_def Let_def)

text \<open>After a full overwrite the metadata row does describe the series written.\<close>

lemma fold_min_date:
  "fold (\<lambda>d m. if date d < m then date d else m) data m0 = Min (insert m0 (date ` set data))"
proof (induction data arbitrary: m0)
  case Nil
  show ?case by simp
next
  case (Cons x xs)
  have "Min (insert (min (date x) m0) (date ` set xs)) = Min (insert m0 (insert (date x) (date ` set xs)))"
    by (cases "xs = []") (simp_all add: min.commute min.left_commute min.assoc)
  moreover have "(if date x < m0 then date x else m0) = min (date x) m0" by (simp add: min_def)
  ultimately show ?case using Cons.IH [of "min (date x) m0"] by simp
qed

lemma fold_max_date:
  "fold (\<lambda>d m. if date d > m then date d else m) data m0 = Max (insert m0 (date ` set data))"
proof (induction data arbitrary: m0)
  case Nil
  show ?case by simp
next
  case (Cons x xs)
  have "Max (insert (max (date x) m0) (date ` set xs)) = Max (insert m0 (insert (date x) (date ` set xs)))"
    by (cases "xs = []") (simp_all add: max.commute max.left_commute max.assoc)
  moreover have "(if date x > m0 then date x else m0) = max (date x) m0" by (simp add: max_def)
  ultimately show ?case using Cons.IH [of "max (date x) m0"] by simp
qed

lemma writeDaily_metadata:
  assumes "db st" "data \<noteq> []"
  shows "\<exists>st'. writeDaily st now t data = Inr st' \<and>
           files st' (getParquetPath st' t) = Some (map (toStorage now) data) \<and>
           stock_metadata st' t = Some
             \<lparr>metadata_row.ticker = t,
              first_trade_date = Min (date ` set data),
              last_trade_date = Max (date ` set data),
              last_update = now, data_source = ''eod'', record_count = length data\<rparr>"
proof -
  have "insert (date (hd data)) (date ` set data) = date ` set data"
    using assms(2) by (cases data) auto
  then show ?thesis
    using assms
    by (simp add: writeDaily_def writeParquet_def writeParquet_ops_def updateMetadata_def
        Let_def getParquetPath_def fold_min_date fold_max_date)
qed

section \<open>Atomicity of writes\<close>

lemma views_merge_existing:
  assumes "f p = Some old"
  shows "views (mergeParquet_ops f p newData) f p
           = [Intact (Some old), Intact (Some old), Intact (Some (mergeRows old newData))]"
  using assms tempPath_neq [of p]
  by (auto simp add: mergeParquet_ops_def)

text \<open>
  C8, as amended: a merge into an existing file writes the merged rows to the temporary
  path and renames that over the target, and a reader of the target sees the complete
  old series or the complete merged series at every point in between. A merge with no
  existing file, and a full overwrite, issue a single \<^verbatim>\<open>COPY\<close> to the target itself, with
  no temporary file and no rename; while it runs a reader of the target can see a
  partially written file.
\<close>

theorem merge_into_existing_is_atomic:
  "(f p = Some old \<longrightarrow>
      mergeParquet_ops f p newData
        = [CopyTo (tempPath p) (mergeRows old newData), Rename (tempPath p) p] \<and>
      set (views (mergeParquet_ops f p newData) f p)
        = {Intact (Some old), Intact (Some (mergeRows old newData))}) \<and>
   (f p = None \<longrightarrow> mergeParquet_ops f p newData = [CopyTo p newData]) \<and>
   writeParquet_ops data p = [CopyTo p data] \<and>
   views (writeParquet_ops data p) f p = [Intact (f p), PartiallyWritten, Intact (Some data)]"
proof (intro conjI impI)
  assume h: "f p = Some old"
  then show "mergeParquet_ops f p newData
        = [CopyTo (tempPath p) (mergeRows old newData), Rename (tempPath p) p]"
    by (simp add: mergeParquet_ops_def)
  from h views_merge_existing [of f p old newData]
  show "set (views (mergeParquet_ops f p newData) f p)
        = {Intact (Some old), Intact (Some (mergeRows old newData))}"
    by simp
next
  assume "f p = None"
  then show "mergeParquet_ops f p newData = [CopyTo p newData]"
    by (simp add: mergeParquet_ops_def)
next
  show "writeParquet_ops data p = [CopyTo p data]" by (simp add: writeParquet_ops_def)
next
  show "views (writeParquet_ops data p) f p = [Intact (f p), PartiallyWritten, Intact (Some data)]"
    by (simp add: writeParquet_ops_def)
qed

theorem merge_into_existing_is_atomic_witness:
  "files example_storage (getParquetPath example_storage ''AAPL'') = Some example_rows \<and>
   set (views (mergeParquet_ops (files example_storage) (getParquetPath example_storage ''AAPL'')
                (map (toStorage 1) example_incoming))
          (files example_storage) (getParquetPath example_storage ''AAPL''))
     = {Intact (Some example_rows),
        Intact (Some (mergeRows example_rows (map (toStorage 1) example_incoming)))} \<and>
   (files example_storage) ''data/stocks/MSFT/daily.parquet'' = None \<and>
   mergeParquet_ops (files example_storage) ''data/stocks/MSFT/daily.parquet''
       (map (toStorage 1) example_incoming)
     = [CopyTo ''data/stocks/MSFT/daily.parquet'' (map (toStorage 1) example_incoming)]"
proof -
  have h: "files example_storage (getParquetPath example_storage ''AAPL'') = Some example_rows"
    by (simp add: example_storage_def example_rows_def getParquetPath_def)
  have n: "(files example_storage) ''data/stocks/MSFT/daily.parquet'' = None"
    by (simp add: example_storage_def)
  from merge_into_existing_is_atomic [where f = "files example_storage"
      and p = "getParquetPath example_storage ''AAPL''" and old = example_rows
      and newData = "map (toStorage 1) example_incoming"] h
  have a: "set (views (mergeParquet_ops (files example_storage) (getParquetPath example_storage ''AAPL'')
                (map (toStorage 1) example_incoming))
          (files example_storage) (getParquetPath example_storage ''AAPL''))
     = {Intact (Some example_rows),
        Intact (Some (mergeRows example_rows (map (toStorage 1) example_incoming)))}"
    by blast
  from merge_into_existing_is_atomic [where f = "files example_storage"
      and p = "''data/stocks/MSFT/daily.parquet''"
      and newData = "map (toStorage 1) example_incoming"] n
  have b: "mergeParquet_ops (files example_storage) ''data/stocks/MSFT/daily.parquet''
       (map (toStorage 1) example_incoming)
     = [CopyTo ''data/stocks/MSFT/daily.parquet'' (map (toStorage 1) example_incoming)]"
    by blast
  from h n a b show ?thesis by blast
qed

text \<open>
  C8 as stated fails for a full overwrite: \<open>writeDaily\<close> over the stored AAPL series
  copies straight to \<^verbatim>\<open>data/stocks/AAPL/daily.parquet\<close>, and between the old and the new
  series a reader of that path can see a partially written file.
\<close>

theorem writeDaily_overwrites_in_place:
  "writeParquet_ops (map (toStorage 1) example_incoming) (getParquetPath example_storage ''AAPL'')
     = [CopyTo ''data/stocks/AAPL/daily.parquet'' (map (toStorage 1) example_incoming)] \<and>
   views (writeParquet_ops (map (toStorage 1) example_incoming) (getParquetPath example_storage ''AAPL''))
       (files example_storage) (getParquetPath example_storage ''AAPL'')
     = [Intact (Some example_rows), PartiallyWritten,
        Intact (Some (map (toStorage 1) example_incoming))] \<and>
   (\<exists>st'. writeDaily example_storage 1 ''AAPL'' example_incoming = Inr st' \<and>
      files st' = (files example_storage)(''data/stocks/AAPL/daily.parquet'' \<mapsto>
                     map (toStorage 1) example_incoming))"
  by (simp add: writeParquet_ops_def writeDaily_def writeParquet_def updateMetadata_def Let_def
      getParquetPath_def example_storage_def example_rows_def example_incoming_def)

end
